theory Spec2Isabelle
  imports Complex_Main
begin

section \<open>The reaction-time cleaning pipeline of \<open>dlab/BEH.py\<close>\<close>

text \<open>
  The development embeds \<open>Project.get_RTdata\<close> and its three nested stages
  (\<open>_remove_extremes\<close>, \<open>_identify_missing_data\<close>, \<open>_filter_outliers\<close> with its
  inner \<open>outliers\<close>).  Reaction times are IEEE doubles in the source; they are read here
  as real numbers, and a missing cell (\<open>NaN\<close>) is \<open>None\<close>.  Every comparison of the
  source is a comparison of finite values, so the reading changes no branch.
\<close>

subsection \<open>Errors, bands and table rows\<close>

datatype error =
    ValueError string
  | TypeError string
  | NameError string
  | KeyError string

datatype band = Below | Ok | Above

text \<open>
  One row of the data frame.  \<open>index\<close> is the row label; the four fields after it are the
  required columns besides \<open>RT\<close>; the remaining fields are the derived columns, whose
  content only matters once the column name is in \<open>columns\<close> of the frame.
\<close>

record row =
  index :: nat
  PPT :: string
  WordPos :: int
  Condition :: string
  Item :: string
  RT :: "real option"
  RTremove :: "band option"
  RTremoveVal :: "real option"
  RTfiltered_by_ppt_labels :: "band option"
  RTfiltered_by_ppt_values :: "real option"
  RTfiltered_by_item_labels :: "band option"
  RTfiltered_by_item_values :: "real option"

record dataframe =
  columns :: "string list"
  rows :: "row list"

subsection \<open>\<open>pandas.cut\<close> with explicit bin edges\<close>

text \<open>
  A bin edge is a finite number, \<open>np.NINF\<close> or \<open>np.inf\<close>.  The calls in the source use
  the defaults \<open>right=True\<close>, \<open>include_lowest=False\<close>, \<open>duplicates='raise'\<close>: every bin
  is open on the left and closed on the right, a value in no bin gets no label, edges that
  decrease raise \<open>ValueError\<close>, and so do edges that repeat.
\<close>

datatype edge = NINF | Fin real | PINF

fun edge_less :: "edge \<Rightarrow> edge \<Rightarrow> bool" where
  "edge_less NINF NINF = False"
| "edge_less NINF _ = True"
| "edge_less (Fin a) (Fin b) = (a < b)"
| "edge_less (Fin a) PINF = True"
| "edge_less _ _ = False"

fun decreasing :: "edge list \<Rightarrow> bool" where
  "decreasing (a # b # bs) = (edge_less b a \<or> decreasing (b # bs))"
| "decreasing _ = False"

fun find_bin :: "edge list \<Rightarrow> 'a list \<Rightarrow> real \<Rightarrow> 'a option" where
  "find_bin (a # b # bs) (l # ls) x =
     (if edge_less a (Fin x) \<and> \<not> edge_less b (Fin x) then Some l
      else find_bin (b # bs) ls x)"
| "find_bin _ _ _ = None"

definition cut_value :: "edge list \<Rightarrow> 'a list \<Rightarrow> real option \<Rightarrow> 'a option" where
  "cut_value bins labels x = (case x of None \<Rightarrow> None | Some v \<Rightarrow> find_bin bins labels v)"

definition pd_cut :: "real option list \<Rightarrow> edge list \<Rightarrow> 'a list \<Rightarrow> error + 'a option list" where
  "pd_cut xs bins labels =
     (if decreasing bins then Inl (ValueError ''bins must increase monotonically.'')
      else if \<not> distinct bins \<and> length bins \<noteq> 2 then Inl (ValueError ''Bin edges must be unique'')
      else if Suc (length labels) \<noteq> length bins
        then Inl (ValueError ''Bin labels must be one fewer than the number of bin edges'')
      else Inr (map (cut_value bins labels) xs))"

subsection \<open>\<open>_remove_extremes\<close>\<close>

text \<open>
  Lines 126 to 129: the label column is cut at \<open>[0, low, high, inf]\<close>, the value column
  keeps \<open>RT\<close> where \<open>RT < high\<close> and \<open>RT > low\<close> and is \<open>NaN\<close> elsewhere.  Both columns
  are written into the frame that was passed in.
\<close>

definition add_column :: "string \<Rightarrow> string list \<Rightarrow> string list" where
  "add_column c cs = (if c \<in> set cs then cs else cs @ [c])"

definition removeExtremes :: "real \<Rightarrow> real \<Rightarrow> row \<Rightarrow> bool" where
  "removeExtremes low high r = (case RT r of None \<Rightarrow> False | Some v \<Rightarrow> v < high \<and> v > low)"

definition remove_extremes :: "dataframe \<Rightarrow> real \<Rightarrow> real \<Rightarrow> error + dataframe" where
  "remove_extremes df low high =
     (case pd_cut (map RT (rows df)) [Fin 0, Fin low, Fin high, PINF] [Below, Ok, Above] of
        Inl e \<Rightarrow> Inl e
      | Inr labels \<Rightarrow>
          Inr (df\<lparr>columns := add_column ''RTremoveVal'' (add_column ''RTremove'' (columns df)),
                  rows := map2 (\<lambda>r l. r\<lparr>RTremove := l,
                                         RTremoveVal := (if removeExtremes low high r then RT r else None)\<rparr>)
                            (rows df) labels\<rparr>))"

subsection \<open>Group statistics and \<open>outliers\<close>\<close>

text \<open>
  \<open>Series.mean\<close> and \<open>Series.std\<close> skip missing values; \<open>std\<close> is the sample standard
  deviation (\<open>ddof = 1\<close>) and is \<open>NaN\<close> when fewer than two values remain.  With two or
  more values it is a number, zero when the values are all equal.
\<close>

definition dropna :: "real option list \<Rightarrow> real list" where
  "dropna xs = List.map_filter (\<lambda>x. x) xs"

definition series_mean :: "real option list \<Rightarrow> real option" where
  "series_mean grp =
     (let vs = dropna grp
      in if vs = [] then None else Some (sum_list vs / real (length vs)))"

definition series_std :: "real option list \<Rightarrow> real option" where
  "series_std grp =
     (let vs = dropna grp; n = length vs
      in if n < 2 then None
         else Some (sqrt (sum_list (map (\<lambda>v. (v - sum_list vs / real n)\<^sup>2) vs) / real (n - 1))))"

text \<open>
  Lines 187 to 190 of \<open>outliers\<close>: the group mean, the standard deviation with \<open>0.1\<close> put
  in its place when it is \<open>NaN\<close>, and the two bounds.  A group without any value has a
  \<open>NaN\<close> mean and so \<open>NaN\<close> bounds, which is \<open>None\<close> here.
\<close>

definition bounds :: "real \<Rightarrow> real option list \<Rightarrow> (real \<times> real) option" where
  "bounds SD grp =
     (case series_mean grp of
        None \<Rightarrow> None
      | Some mean \<Rightarrow>
          let std = (case series_std grp of None \<Rightarrow> 1 / 10 | Some sd \<Rightarrow> sd)
          in Some (mean - SD * std, mean + SD * std))"

definition series_lt :: "real option list \<Rightarrow> real \<Rightarrow> bool list" where
  "series_lt grp b = map (\<lambda>x. case x of None \<Rightarrow> False | Some v \<Rightarrow> v < b) grp"

definition series_gt :: "real option list \<Rightarrow> real \<Rightarrow> bool list" where
  "series_gt grp b = map (\<lambda>x. case x of None \<Rightarrow> False | Some v \<Rightarrow> v > b) grp"

definition mask :: "real option list \<Rightarrow> bool list \<Rightarrow> real \<Rightarrow> real option list" where
  "mask series cond other = map2 (\<lambda>v c. if c then Some other else v) series cond"

text \<open>
  Lines 191 to 193.  The result frame is a list of pairs (label, trimmed value), one per
  value of the group and in the group's order.  With \<open>NaN\<close> bounds the two inner edges of
  the cut repeat, so \<open>pandas.cut\<close> raises as for any repeated edge.
\<close>

definition outliers :: "real \<Rightarrow> real option list \<Rightarrow> error + (band option \<times> real option) list" where
  "outliers SD grp =
     (case bounds SD grp of
        None \<Rightarrow> Inl (ValueError ''Bin edges must be unique'')
      | Some (lower, upper) \<Rightarrow>
          let trimmed = mask (mask grp (series_lt grp lower) lower) (series_gt grp upper) upper
          in (case pd_cut grp [NINF, Fin lower, Fin upper, PINF] [Below, Ok, Above] of
                Inl e \<Rightarrow> Inl e
              | Inr labels \<Rightarrow> Inr (zip labels trimmed)))"

subsection \<open>Grouping\<close>

type_synonym group_key = "string \<times> string \<times> int"

definition ppt_key :: "row \<Rightarrow> group_key" where
  "ppt_key r = (PPT r, Condition r, WordPos r)"

definition item_key :: "row \<Rightarrow> group_key" where
  "item_key r = (Item r, Condition r, WordPos r)"

definition key_condition :: "group_key \<Rightarrow> string" where
  "key_condition k = fst (snd k)"

definition group_rows :: "(row \<Rightarrow> group_key) \<Rightarrow> row list \<Rightarrow> group_key \<Rightarrow> row list" where
  "group_rows key rs k = filter (\<lambda>r. key r = k) rs"

text \<open>
  \<open>by.mean()[by.mean().isnull().any(axis=1)]['RTremoveVal']\<close>: the groups in which the
  mean of some averaged column is \<open>NaN\<close>.  The averaged columns are \<open>RT\<close> and
  \<open>RTremoveVal\<close>; identifiers are never missing.  Groups are listed in the order of their
  first row (pandas lists them sorted by key).
\<close>

definition any_mean_isnull :: "row list \<Rightarrow> bool" where
  "any_mean_isnull g = (series_mean (map RT g) = None \<or> series_mean (map RTremoveVal g) = None)"

definition missing_groups :: "(row \<Rightarrow> group_key) \<Rightarrow> row list \<Rightarrow> group_key list" where
  "missing_groups key rs =
     filter (\<lambda>k. any_mean_isnull (group_rows key rs k)) (remdups (map key rs))"

subsection \<open>\<open>_identify_missing_data\<close>\<close>

text \<open>What the stage prints, in the order printed.\<close>

datatype report =
    MissingByPpt "group_key list"
  | IneligPpts "string list"
  | FillerNotFiltered "string list"
  | NoCriticalAffected
  | NoCriticalProvided
  | NoMissingByPpt
  | MissingByItem "group_key list"

definition missing_by_ppt :: "dataframe \<Rightarrow> group_key list" where
  "missing_by_ppt df = missing_groups ppt_key (rows df)"

definition critical_conditions_in_data :: "string list \<Rightarrow> dataframe \<Rightarrow> string list" where
  "critical_conditions_in_data critical_conditions df =
     filter (\<lambda>condition. condition \<in> set (map key_condition (missing_by_ppt df))) critical_conditions"

definition missing_by_ppt_crit :: "string list \<Rightarrow> dataframe \<Rightarrow> group_key list" where
  "missing_by_ppt_crit critical_conditions df =
     filter (\<lambda>k. key_condition k \<in> set (critical_conditions_in_data critical_conditions df))
       (missing_by_ppt df)"

definition missing_by_ppt_filler :: "string list \<Rightarrow> dataframe \<Rightarrow> string list" where
  "missing_by_ppt_filler critical_conditions df =
     remdups (map key_condition
       (filter (\<lambda>k. key_condition k \<notin> set (critical_conditions_in_data critical_conditions df))
          (missing_by_ppt df)))"

definition inelig_ppts :: "string list \<Rightarrow> dataframe \<Rightarrow> string list" where
  "inelig_ppts critical_conditions df = remdups (map fst (missing_by_ppt_crit critical_conditions df))"

text \<open>
  The condition under which lines 156 to 168 run and \<open>df\<close> is rebound to a new, smaller
  frame; in every other branch the frame passed in is returned as it is.
\<close>

definition drops_rows :: "string list \<Rightarrow> dataframe \<Rightarrow> bool" where
  "drops_rows critical_conditions df =
     (missing_by_ppt df \<noteq> [] \<and> critical_conditions \<noteq> [] \<and>
      critical_conditions_in_data critical_conditions df \<noteq> [])"

definition identify_missing_data :: "string list \<Rightarrow> dataframe \<Rightarrow> error + dataframe \<times> report list" where
  "identify_missing_data critical_conditions df =
     (if ''RTremoveVal'' \<notin> set (columns df) then Inl (KeyError ''RTremoveVal'')
      else
        let (df1, printed) =
          (if missing_by_ppt df \<noteq> [] then
             (if critical_conditions \<noteq> [] then
                (if critical_conditions_in_data critical_conditions df \<noteq> [] then
                   let df1 = df\<lparr>rows := filter (\<lambda>r. PPT r \<notin> set (inelig_ppts critical_conditions df)) (rows df)\<rparr>
                   in if missing_by_ppt_filler critical_conditions df \<noteq> [] then
                        (df1\<lparr>rows := filter (\<lambda>r. Condition r \<notin> set (missing_by_ppt_filler critical_conditions df)) (rows df1)\<rparr>,
                         [MissingByPpt (missing_by_ppt df), IneligPpts (inelig_ppts critical_conditions df),
                          FillerNotFiltered (missing_by_ppt_filler critical_conditions df)])
                      else
                        (df1, [MissingByPpt (missing_by_ppt df), IneligPpts (inelig_ppts critical_conditions df)])
                 else (df, [MissingByPpt (missing_by_ppt df), NoCriticalAffected]))
              else (df, [MissingByPpt (missing_by_ppt df), NoCriticalProvided]))
           else (df, [NoMissingByPpt]));
          missing_by_item = missing_groups item_key (rows df1)
        in Inr (df1, printed @ (if missing_by_item \<noteq> [] then [MissingByItem missing_by_item] else [])))"

subsection \<open>\<open>_filter_outliers\<close>\<close>

text \<open>
  \<open>df.groupby(keys)['RTremoveVal'].apply(outliers, ...)\<close>: \<open>outliers\<close> runs on the
  values of each group, and the first group on which it raises ends the call.  The
  results are then aligned with the rows of \<open>df\<close> by row label, that is, the n-th row
  of a group receives the n-th pair of that group's result.
\<close>

fun apply_outliers ::
  "real \<Rightarrow> (row \<Rightarrow> group_key) \<Rightarrow> row list \<Rightarrow> group_key list \<Rightarrow>
     error + (group_key \<times> (band option \<times> real option) list) list" where
  "apply_outliers SD key rs [] = Inr []"
| "apply_outliers SD key rs (k # ks) =
     (case outliers SD (map RTremoveVal (group_rows key rs k)) of
        Inl e \<Rightarrow> Inl e
      | Inr res \<Rightarrow>
          (case apply_outliers SD key rs ks of
             Inl e \<Rightarrow> Inl e
           | Inr rest \<Rightarrow> Inr ((k, res) # rest)))"

definition position_in_group :: "(row \<Rightarrow> group_key) \<Rightarrow> row list \<Rightarrow> nat \<Rightarrow> nat" where
  "position_in_group key rs i = length (group_rows key (take i rs) (key (rs ! i)))"

definition aligned ::
  "(group_key \<times> (band option \<times> real option) list) list \<Rightarrow> (row \<Rightarrow> group_key) \<Rightarrow> row list \<Rightarrow>
     (band option \<times> real option) list" where
  "aligned res key rs =
     map (\<lambda>i. case map_of res (key (rs ! i)) of
                 None \<Rightarrow> (None, None)
               | Some g \<Rightarrow> g ! position_in_group key rs i)
       [0..<length rs]"

definition filter_by_ppt :: "dataframe \<Rightarrow> real \<Rightarrow> error + dataframe" where
  "filter_by_ppt df SD =
     (if ''RTremoveVal'' \<notin> set (columns df) then Inl (KeyError ''Column not found: RTremoveVal'')
      else case apply_outliers SD ppt_key (rows df) (remdups (map ppt_key (rows df))) of
             Inl e \<Rightarrow> Inl e
           | Inr res \<Rightarrow>
               Inr (df\<lparr>columns := add_column ''RTfiltered_by_ppt_values''
                                   (add_column ''RTfiltered_by_ppt_labels'' (columns df)),
                       rows := map2 (\<lambda>r c. r\<lparr>RTfiltered_by_ppt_labels := fst c,
                                              RTfiltered_by_ppt_values := snd c\<rparr>)
                                 (rows df) (aligned res ppt_key (rows df))\<rparr>))"

definition filter_by_item :: "dataframe \<Rightarrow> real \<Rightarrow> error + dataframe" where
  "filter_by_item df SD =
     (if ''RTremoveVal'' \<notin> set (columns df) then Inl (KeyError ''Column not found: RTremoveVal'')
      else case apply_outliers SD item_key (rows df) (remdups (map item_key (rows df))) of
             Inl e \<Rightarrow> Inl e
           | Inr res \<Rightarrow>
               Inr (df\<lparr>columns := add_column ''RTfiltered_by_item_values''
                                   (add_column ''RTfiltered_by_item_labels'' (columns df)),
                       rows := map2 (\<lambda>r c. r\<lparr>RTfiltered_by_item_labels := fst c,
                                              RTfiltered_by_item_values := snd c\<rparr>)
                                 (rows df) (aligned res item_key (rows df))\<rparr>))"

text \<open>Both passes run (\<open>ppt\<close> and \<open>items\<close> keep their default \<open>True\<close>), the second on the
  frame the first has written.\<close>

definition filter_outliers :: "dataframe \<Rightarrow> real \<Rightarrow> error + dataframe" where
  "filter_outliers df SD =
     (case filter_by_ppt df SD of
        Inl e \<Rightarrow> Inl e
      | Inr df1 \<Rightarrow> filter_by_item df1 SD)"

subsection \<open>\<open>Project.get_RTdata\<close> on a store of frames\<close>

text \<open>
  Data frames are objects: \<open>self.data\<close>, \<open>self.RTdata\<close> and the local \<open>df\<close> hold
  references, and the stages write columns into the object \<open>df\<close> refers to.  A selection
  (\<open>frame[mask]\<close>, \<open>.loc[:, cols]\<close>, \<open>reset_index()\<close>) builds a new object.  The state
  is the store of frames, the next unused reference and the two attributes of the project.
\<close>

record project =
  objects :: "nat \<Rightarrow> dataframe option"
  fresh :: nat
  data :: nat
  RTdata :: "nat option"

definition alloc :: "dataframe \<Rightarrow> project \<Rightarrow> nat \<times> project" where
  "alloc df s = (fresh s, s\<lparr>objects := (objects s)(fresh s := Some df), fresh := Suc (fresh s)\<rparr>)"

definition store :: "nat \<Rightarrow> dataframe \<Rightarrow> project \<Rightarrow> project" where
  "store a df s = s\<lparr>objects := (objects s)(a := Some df)\<rparr>"

text \<open>Reading through a reference; a local reference always points to a frame, so the
  empty frame of the other branch is never read by \<open>get_RTdata\<close>.\<close>

definition deref :: "project \<Rightarrow> nat \<Rightarrow> dataframe" where
  "deref s a = (case objects s a of Some df \<Rightarrow> df | None \<Rightarrow> \<lparr>columns = [], rows = []\<rparr>)"

definition required_columns :: "string list" where
  "required_columns = [''PPT'', ''WordPos'', ''Condition'', ''Item'', ''RT'']"

text \<open>
  Lines 225 to 228.  The body of the loop appends \<open>col\<close>, a name bound nowhere (the loop
  variable is \<open>column\<close>), so the first absent column raises \<open>NameError\<close>; when the loop
  ends, \<open>missing\<close> is still the list it started with.
\<close>

fun missing_columns :: "string list \<Rightarrow> string list \<Rightarrow> string list \<Rightarrow> error + string list" where
  "missing_columns cols [] missing = Inr missing"
| "missing_columns cols (column # rest) missing =
     (if column \<notin> set cols then Inl (NameError ''col'')
      else missing_columns cols rest missing)"

text \<open>Line 233: the rows whose \<open>RT\<close> is numeric, restricted to the required columns.\<close>

definition select_numeric :: "dataframe \<Rightarrow> dataframe" where
  "select_numeric d = \<lparr>columns = required_columns, rows = filter (\<lambda>r. RT r \<noteq> None) (rows d)\<rparr>"

definition reset_index :: "dataframe \<Rightarrow> dataframe" where
  "reset_index df = df\<lparr>columns := ''index'' # columns df\<rparr>"

text \<open>
  Lines 257 to 268.  The argument \<open>remove_extremes\<close> is \<open>None\<close> or a list of numbers; an
  empty list is false, and a list whose length is not two passes through both tests
  without any effect.
\<close>

definition run_remove_extremes :: "real list option \<Rightarrow> nat \<Rightarrow> project \<Rightarrow> (error + nat) \<times> project" where
  "run_remove_extremes window df s =
     (case window of
        None \<Rightarrow> (Inr df, s)
      | Some [] \<Rightarrow> (Inr df, s)
      | Some [low, high] \<Rightarrow>
          if low < high then
            (case remove_extremes (deref s df) low high of
               Inl e \<Rightarrow> (Inl e, s)
             | Inr d \<Rightarrow> (Inr df, store df d s))
          else (Inl (ValueError ''Ensure the provided low value is lower than the provided high value.''), s)
      | Some _ \<Rightarrow> (Inr df, s))"

text \<open>Lines 270 and 271: \<open>df\<close> is rebound to what the stage returns, a new frame when
  rows were dropped and the same object otherwise.\<close>

definition run_identify_missing_data ::
  "bool \<Rightarrow> string list \<Rightarrow> nat \<Rightarrow> project \<Rightarrow> (error + nat) \<times> project" where
  "run_identify_missing_data identify critical_conditions df s =
     (if identify then
        (case identify_missing_data critical_conditions (deref s df) of
           Inl e \<Rightarrow> (Inl e, s)
         | Inr (d, printed) \<Rightarrow>
             if drops_rows critical_conditions (deref s df)
             then (let (a, s1) = alloc d s in (Inr a, s1))
             else (Inr df, s))
      else (Inr df, s))"

text \<open>Lines 273 to 280.  The argument \<open>filter_outliers\<close> is \<open>None\<close> or a number; the first
  pass has written its two columns into \<open>df\<close> when the second one raises.\<close>

definition run_filter_outliers :: "real option \<Rightarrow> nat \<Rightarrow> project \<Rightarrow> (error + nat) \<times> project" where
  "run_filter_outliers SD_arg df s =
     (case SD_arg of
        None \<Rightarrow> (Inr df, s)
      | Some SD \<Rightarrow>
          if SD < 0 then (Inl (ValueError ''SD provided to filter_outliers must be a positive int or float''), s)
          else
            (case filter_by_ppt (deref s df) SD of
               Inl e \<Rightarrow> (Inl e, s)
             | Inr d1 \<Rightarrow>
                 (case filter_by_item d1 SD of
                    Inl e \<Rightarrow> (Inl e, store df d1 s)
                  | Inr d2 \<Rightarrow> (Inr df, store df d2 s))))"

definition get_RTdata ::
  "string list \<Rightarrow> bool \<Rightarrow> real list option \<Rightarrow> bool \<Rightarrow> real option \<Rightarrow> project \<Rightarrow> (error + unit) \<times> project" where
  "get_RTdata critical_conditions summarize window identify SD_arg s =
     (case objects s (data s) of
        None \<Rightarrow> (Inl (ValueError ''There is no data loaded. Load data from a valid source before proceeding.''), s)
      | Some d \<Rightarrow>
          (case missing_columns (columns d) required_columns [] of
             Inl e \<Rightarrow> (Inl e, s)
           | Inr missing \<Rightarrow>
               if missing \<noteq> [] then (Inl (NameError ''join''), s)
               else
                 (let (df, s1) = alloc (select_numeric d) s
                  in if \<exists>condition \<in> set critical_conditions.
                          condition \<notin> set (map Condition (rows (deref s1 df)))
                     then (Inl (ValueError ''All conditions provided in critical_conditions must be in supplied self.data''), s1)
                     else if summarize \<and> rows (deref s1 df) = []
                     then (Inl (ValueError ''no conds loaded''), s1)
                     else
                       (case run_remove_extremes window df s1 of
                          (Inl e, s2) \<Rightarrow> (Inl e, s2)
                        | (Inr df2, s2) \<Rightarrow>
                            (case run_identify_missing_data identify critical_conditions df2 s2 of
                               (Inl e, s3) \<Rightarrow> (Inl e, s3)
                             | (Inr df3, s3) \<Rightarrow>
                                 (case run_filter_outliers SD_arg df3 s3 of
                                    (Inl e, s4) \<Rightarrow> (Inl e, s4)
                                  | (Inr df4, s4) \<Rightarrow>
                                      (let (a, s5) = alloc (reset_index (deref s4 df4)) s4
                                       in (Inr (), s5\<lparr>RTdata := Some a\<rparr>))))))))"

subsection \<open>Concrete rows\<close>

definition mk_row :: "nat \<Rightarrow> string \<Rightarrow> string \<Rightarrow> int \<Rightarrow> real option \<Rightarrow> row" where
  "mk_row i p c w t =
     \<lparr>index = i, PPT = p, WordPos = w, Condition = c, Item = ''I1'', RT = t,
      RTremove = None, RTremoveVal = None,
      RTfiltered_by_ppt_labels = None, RTfiltered_by_ppt_values = None,
      RTfiltered_by_item_labels = None, RTfiltered_by_item_values = None\<rparr>"

text \<open>The group of Scenario C of the specification.\<close>

definition scenario_C :: "real option list" where
  "scenario_C = [Some 100, Some 102, Some 104, Some 106, Some 5000]"

text \<open>
  Two frames of raw records.  In the first, participant \<open>P1\<close> has a valid time in the
  condition \<open>Crit\<close> and only an extreme one in \<open>Fill\<close>.  In the second, \<open>P1\<close> has only
  an extreme time in \<open>Crit\<close> and \<open>P2\<close> only an extreme time in \<open>Fill\<close>.
\<close>

definition scenario_filler :: dataframe where
  "scenario_filler = \<lparr>columns = required_columns,
      rows = [mk_row 0 ''P1'' ''Crit'' 1 (Some 300), mk_row 1 ''P1'' ''Fill'' 1 (Some 150)]\<rparr>"

definition scenario_mixed :: dataframe where
  "scenario_mixed = \<lparr>columns = required_columns,
      rows = [mk_row 0 ''P1'' ''Crit'' 1 (Some 150), mk_row 1 ''P1'' ''Fill'' 1 (Some 300),
              mk_row 2 ''P2'' ''Crit'' 1 (Some 300), mk_row 3 ''P2'' ''Fill'' 1 (Some 150),
              mk_row 4 ''P2'' ''Other'' 1 (Some 400)]\<rparr>"

text \<open>The frame after the extreme-value filter with the default window, and the shape
  of its rows.\<close>

definition after_extremes :: "dataframe \<Rightarrow> dataframe" where
  "after_extremes df = (case remove_extremes df 200 5000 of Inr d \<Rightarrow> d | Inl e \<Rightarrow> df)"

definition filtered_columns :: "string list" where
  "filtered_columns = required_columns @ [''RTremove'', ''RTremoveVal'']"

definition filtered_row :: "nat \<Rightarrow> string \<Rightarrow> string \<Rightarrow> int \<Rightarrow> real \<Rightarrow> band option \<Rightarrow> real option \<Rightarrow> row" where
  "filtered_row i p c w t l v = (mk_row i p c w (Some t))\<lparr>RTremove := l, RTremoveVal := v\<rparr>"

text \<open>
  Two source tables and the project that holds one of them as \<open>self.data\<close>, before
  any call of \<open>get_RTdata\<close>.  The first table has no column \<open>RT\<close>.  The second has
  an extra column and one row whose \<open>RT\<close> is not numeric.
\<close>

definition frame_no_RT :: dataframe where
  "frame_no_RT = \<lparr>columns = [''PPT'', ''WordPos'', ''Condition'', ''Item''],
                   rows = [mk_row 0 ''P1'' ''Crit'' 1 None]\<rparr>"

definition frame_two :: dataframe where
  "frame_two = \<lparr>columns = required_columns @ [''CompQAcc''],
                 rows = [mk_row 0 ''P1'' ''A'' 1 (Some 300), mk_row 1 ''P2'' ''B'' 1 (Some 400),
                         mk_row 2 ''P2'' ''B'' 2 None]\<rparr>"

definition project_of :: "dataframe \<Rightarrow> project" where
  "project_of d = \<lparr>objects = (\<lambda>a. None)(0 := Some d), fresh = 1, data = 0, RTdata = None\<rparr>"

text \<open>The second table after line 233 and the extreme-value filter, and the state in
  which \<open>df\<close> has just been created.\<close>

definition frame_two_filtered :: dataframe where
  "frame_two_filtered = \<lparr>columns = filtered_columns,
          rows = [filtered_row 0 ''P1'' ''A'' 1 300 (Some Ok) (Some 300),
                  filtered_row 1 ''P2'' ''B'' 1 400 (Some Ok) (Some 400)]\<rparr>"

definition s1_two :: project where
  "s1_two = \<lparr>objects = (\<lambda>a. None)(0 := Some frame_two, Suc 0 := Some (select_numeric frame_two)),
             fresh = Suc (Suc 0), data = 0, RTdata = None\<rparr>"

text \<open>
  The frame condition of a step of \<open>get_RTdata\<close>: the two attributes are not rebound,
  no reference is given back, and every object below the reference \<open>n\<close> is what it was.
\<close>

definition frame_kept :: "nat \<Rightarrow> project \<Rightarrow> project \<Rightarrow> bool" where
  "frame_kept n s s' \<longleftrightarrow>
     data s' = data s \<and> RTdata s' = RTdata s \<and> fresh s \<le> fresh s' \<and>
     (\<forall>a < n. objects s' a = objects s a)"

section \<open>Properties\<close>

subsection \<open>The extreme-value filter\<close>

lemma map2_map_same: "map2 f xs (map g xs) = map (\<lambda>x. f x (g x)) xs"
  by (induction xs) auto

lemma pd_cut_extremes:
  "pd_cut xs [Fin 0, Fin low, Fin high, PINF] [Below, Ok, Above] =
     (if 0 < low \<and> low < high
        then Inr (map (cut_value [Fin 0, Fin low, Fin high, PINF] [Below, Ok, Above]) xs)
      else if low < 0 \<or> high < low then Inl (ValueError ''bins must increase monotonically.'')
      else Inl (ValueError ''Bin edges must be unique''))"
  by (auto simp: pd_cut_def)

lemma remove_extremes_ok:
  assumes "0 < low" "low < high"
  shows "remove_extremes df low high =
     Inr (df\<lparr>columns := add_column ''RTremoveVal'' (add_column ''RTremove'' (columns df)),
            rows := map (\<lambda>r. r\<lparr>RTremove := cut_value [Fin 0, Fin low, Fin high, PINF] [Below, Ok, Above] (RT r),
                               RTremoveVal := (if removeExtremes low high r then RT r else None)\<rparr>)
                      (rows df)\<rparr>)"
  using assms by (simp add: remove_extremes_def pd_cut_extremes map2_map_same o_def)

lemma cut_extremes_cases:
  assumes "0 < low" "low < high"
  shows "cut_value [Fin 0, Fin low, Fin high, PINF] [Below, Ok, Above] (Some v) =
    (if v \<le> 0 then None else if v \<le> low then Some Below
     else if v \<le> high then Some Ok else Some Above)"
  using assms by (auto simp: cut_value_def)

text \<open>
  Where the value column is defined the label is \<open>Ok\<close> and the value lies strictly inside
  the window; a row labelled \<open>Ok\<close> has its value defined unless its \<open>RT\<close> is \<open>high\<close>.
\<close>

lemma remove_extremes_value_band:
  assumes "0 < low" "low < high" "remove_extremes df low high = Inr df'" "i < length (rows df)"
  shows "(\<forall>v. RTremoveVal (rows df' ! i) = Some v \<longrightarrow>
            RT (rows df ! i) = Some v \<and> low < v \<and> v < high \<and> RTremove (rows df' ! i) = Some Ok) \<and>
         (RTremove (rows df' ! i) = Some Ok \<and> RT (rows df ! i) \<noteq> Some high \<longrightarrow>
            RTremoveVal (rows df' ! i) = RT (rows df ! i) \<and> RTremoveVal (rows df' ! i) \<noteq> None)"
proof (cases "RT (rows df ! i)")
  case None
  with assms show ?thesis
    by (auto simp: remove_extremes_ok removeExtremes_def cut_value_def)
next
  case (Some v)
  with assms show ?thesis
    by (auto simp: remove_extremes_ok removeExtremes_def cut_extremes_cases split: if_splits)
qed

text \<open>
  C5.  The claim is that after the filter a row is labelled \<open>Ok\<close> exactly when its
  \<open>RTremoveVal\<close> is defined, also at \<open>RT = high\<close>.  On the window \<open>(200, 5000)\<close> the row
  with \<open>RT = 5000\<close> is labelled \<open>Ok\<close> by the cut of line 126, whose bins are closed on the
  right, while the mask of line 127 is strict and leaves its \<open>RTremoveVal\<close> undefined.
\<close>

theorem remove_extremes_at_high:
  "(case remove_extremes \<lparr>columns = required_columns,
                           rows = [mk_row 0 ''P1'' ''Crit'' 1 (Some 5000)]\<rparr> 200 5000 of
      Inl e \<Rightarrow> None
    | Inr df \<Rightarrow> Some (map (\<lambda>r. (RTremove r, RTremoveVal r)) (rows df)))
   = Some [(Some Ok, None)]"
  by (simp add: remove_extremes_ok cut_extremes_cases removeExtremes_def mk_row_def)

text \<open>
  C6, as stated: every numeric \<open>RT\<close> receives a band, \<open>Below\<close> when \<open>RT \<le> low\<close> and
  \<open>Above\<close> when \<open>RT \<ge> high\<close>.  On the window \<open>(200, 5000)\<close> the claim gives
  \<open>Below\<close> to \<open>RT = 0\<close> and \<open>Above\<close> to \<open>RT = 5000\<close>; the filter gives no label to the
  first and \<open>Ok\<close> to the second.
\<close>

theorem remove_extremes_bands_counterexample:
  "(case remove_extremes \<lparr>columns = required_columns,
        rows = [mk_row 0 ''P1'' ''Crit'' 1 (Some 0), mk_row 1 ''P1'' ''Crit'' 1 (Some 5000)]\<rparr> 200 5000 of
      Inl e \<Rightarrow> None
    | Inr df \<Rightarrow> Some (map RTremove (rows df)))
   = Some [None, Some Ok]"
  by (simp add: remove_extremes_ok cut_extremes_cases mk_row_def)

text \<open>
  C6, amended.  For a window with \<open>0 < low < high\<close> the filter returns a frame with as
  many rows, and a row with numeric \<open>RT\<close> is labelled \<open>Below\<close> when \<open>0 < RT \<le> low\<close>,
  \<open>Ok\<close> when \<open>low < RT < high\<close>, \<open>Above\<close> when \<open>RT > high\<close>, and gets no label when
  \<open>RT \<le> 0\<close>, the lowest bin edge being \<open>0\<close>.  Nothing is said at \<open>RT = high\<close>.
\<close>

theorem remove_extremes_bands:
  assumes "0 < low" "low < high"
  shows "\<exists>df'. remove_extremes df low high = Inr df' \<and> length (rows df') = length (rows df) \<and>
     (\<forall>i < length (rows df). \<forall>v. RT (rows df ! i) = Some v \<longrightarrow>
        (v \<le> 0 \<longrightarrow> RTremove (rows df' ! i) = None) \<and>
        (0 < v \<and> v \<le> low \<longrightarrow> RTremove (rows df' ! i) = Some Below) \<and>
        (low < v \<and> v < high \<longrightarrow> RTremove (rows df' ! i) = Some Ok) \<and>
        (high < v \<longrightarrow> RTremove (rows df' ! i) = Some Above))"
  using assms by (simp add: remove_extremes_ok cut_extremes_cases)

text \<open>The amended C6 at four rows, one for each of its cases, on the default window.\<close>

theorem remove_extremes_bands_witness:
  "\<exists>df'. remove_extremes \<lparr>columns = required_columns,
              rows = [mk_row 0 ''P1'' ''Crit'' 1 (Some 150), mk_row 1 ''P1'' ''Crit'' 1 (Some 300),
                      mk_row 2 ''P1'' ''Crit'' 1 (Some 6000), mk_row 3 ''P1'' ''Crit'' 1 (Some (- 1))]\<rparr>
            200 5000 = Inr df' \<and>
     map RTremove (rows df') = [Some Below, Some Ok, Some Above, None]"
proof -
  let ?df = "\<lparr>columns = required_columns,
              rows = [mk_row 0 ''P1'' ''Crit'' 1 (Some 150), mk_row 1 ''P1'' ''Crit'' 1 (Some 300),
                      mk_row 2 ''P1'' ''Crit'' 1 (Some 6000), mk_row 3 ''P1'' ''Crit'' 1 (Some (- 1))]\<rparr>"
  have low: "(0::real) < 200" and win: "(200::real) < 5000" by simp_all
  from remove_extremes_bands [OF low win, of ?df]
  obtain df' where ok: "remove_extremes ?df 200 5000 = Inr df'"
    and len: "length (rows df') = length (rows ?df)"
    and lab: "\<forall>i < length (rows ?df). \<forall>v. RT (rows ?df ! i) = Some v \<longrightarrow>
        (v \<le> 0 \<longrightarrow> RTremove (rows df' ! i) = None) \<and>
        (0 < v \<and> v \<le> 200 \<longrightarrow> RTremove (rows df' ! i) = Some Below) \<and>
        (200 < v \<and> v < 5000 \<longrightarrow> RTremove (rows df' ! i) = Some Ok) \<and>
        (5000 < v \<longrightarrow> RTremove (rows df' ! i) = Some Above)"
    by blast
  have l4: "length (rows df') = 4" using len by simp
  have "RTremove (rows df' ! 0) = Some Below"
    using lab [rule_format, of 0 150] by (simp add: mk_row_def)
  moreover have "RTremove (rows df' ! 1) = Some Ok"
    using lab [rule_format, of 1 300] by (simp add: mk_row_def)
  moreover have "RTremove (rows df' ! 2) = Some Above"
    using lab [rule_format, of 2 6000] by (simp add: mk_row_def)
  moreover have "RTremove (rows df' ! 3) = None"
    using lab [rule_format, of 3 "- 1"] by (simp add: mk_row_def)
  ultimately have labs: "map RTremove (rows df') = [Some Below, Some Ok, Some Above, None]"
    using l4 by (auto simp: list_eq_iff_nth_eq nth_Cons' less_Suc_eq numeral_eq_Suc)
  show ?thesis
    by (rule exI [of _ df']) (simp only: ok labs simp_thms)
qed

subsection \<open>The winsorizer\<close>

lemma pd_cut_outliers:
  "pd_cut xs [NINF, Fin lower, Fin upper, PINF] [Below, Ok, Above] =
     (if lower < upper
        then Inr (map (cut_value [NINF, Fin lower, Fin upper, PINF] [Below, Ok, Above]) xs)
      else if upper < lower then Inl (ValueError ''bins must increase monotonically.'')
      else Inl (ValueError ''Bin edges must be unique''))"
  by (auto simp: pd_cut_def)

lemma mask_twice:
  "mask (mask grp (series_lt grp lower) lower) (series_gt grp upper) upper =
     map (\<lambda>x. case x of None \<Rightarrow> None
             | Some v \<Rightarrow> Some (if upper < v then upper else if v < lower then lower else v)) grp"
  by (induction grp) (auto simp: mask_def series_lt_def series_gt_def split: option.splits)

lemma zip_map_same: "zip (map f xs) (map g xs) = map (\<lambda>x. (f x, g x)) xs"
  by (induction xs) auto

lemma outliers_ok:
  assumes "bounds SD grp = Some (lower, upper)" "lower < upper"
  shows "outliers SD grp =
     Inr (map (\<lambda>x. (cut_value [NINF, Fin lower, Fin upper, PINF] [Below, Ok, Above] x,
                     (case x of None \<Rightarrow> None
                      | Some v \<Rightarrow> Some (if upper < v then upper else if v < lower then lower else v))))
            grp)"
  using assms by (simp add: outliers_def pd_cut_outliers mask_twice zip_map_same)

text \<open>When the bounds do not increase strictly the cut raises and \<open>outliers\<close> returns
  nothing: this is the case of a multiplier \<open>0\<close> and of a standard deviation \<open>0\<close>.\<close>

lemma outliers_raises:
  assumes "bounds SD grp = Some (lower, upper)" "\<not> lower < upper"
  shows "\<exists>msg. outliers SD grp = Inl (ValueError msg)"
  using assms by (simp add: outliers_def pd_cut_outliers)

lemma dropna_Nil [simp]: "dropna [] = []"
  by (simp add: dropna_def List.map_filter_simps)

lemma dropna_Some [simp]: "dropna (Some v # xs) = v # dropna xs"
  by (simp add: dropna_def List.map_filter_simps)

lemma dropna_None [simp]: "dropna (None # xs) = dropna xs"
  by (simp add: dropna_def List.map_filter_simps)

text \<open>
  C7, as stated: for every group and every value of it, the winsorized value is the value
  itself when it lies in \<open>[lower, upper]\<close>, and no value is deleted.  The group of two
  observations of \<open>350\<close> with \<open>k = 2\<close> has the bounds \<open>[350, 350]\<close>, and both values lie
  in them; \<open>outliers\<close> raises on the repeated edge at line 192 and returns no
  winsorized value at all.
\<close>

theorem outliers_trimmed_counterexample:
  "bounds 2 [Some 350, Some 350] = Some (350, 350) \<and>
   outliers 2 [Some 350, Some 350] = Inl (ValueError ''Bin edges must be unique'')"
proof -
  have b: "bounds 2 [Some 350, Some 350] = Some (350, 350)"
    by (simp add: bounds_def series_mean_def series_std_def)
  show ?thesis
    by (simp add: outliers_def b pd_cut_outliers)
qed

text \<open>
  C7, amended.  Let \<open>lower < upper\<close> be the bounds of a group.  Then \<open>outliers\<close> returns
  one pair for every value of the group; the trimmed value is the value itself when it
  lies in \<open>[lower, upper]\<close>, is \<open>lower\<close> when the value is below \<open>lower\<close> and \<open>upper\<close>
  when it is above \<open>upper\<close>, and a missing value stays missing.
\<close>

theorem outliers_trimmed:
  assumes "bounds SD grp = Some (lower, upper)" "lower < upper"
  shows "\<exists>res. outliers SD grp = Inr res \<and> length res = length grp \<and>
     (\<forall>i < length grp.
        (grp ! i = None \<longrightarrow> snd (res ! i) = None) \<and>
        (\<forall>v. grp ! i = Some v \<longrightarrow>
           (lower \<le> v \<and> v \<le> upper \<longrightarrow> snd (res ! i) = Some v) \<and>
           (v < lower \<longrightarrow> snd (res ! i) = Some lower) \<and>
           (upper < v \<longrightarrow> snd (res ! i) = Some upper)))"
  using assms by (simp add: outliers_ok)

lemma scenario_C_mean: "series_mean scenario_C = Some (5412 / 5)"
  by (simp add: scenario_C_def series_mean_def)

lemma scenario_C_std: "series_std scenario_C = Some (sqrt (23980634 / 5))"
  by (simp add: scenario_C_def series_std_def power2_eq_square)

lemma scenario_C_sqrt_lower: "1959 < sqrt (23980634 / 5 :: real)"
  by (rule real_less_rsqrt) simp

lemma scenario_C_sqrt_upper: "sqrt (23980634 / 5 :: real) \<le> 2191"
  by (rule real_le_lsqrt) simp_all

lemma scenario_C_bounds:
  "bounds SD scenario_C =
     Some (5412 / 5 - SD * sqrt (23980634 / 5), 5412 / 5 + SD * sqrt (23980634 / 5))"
  by (simp add: bounds_def scenario_C_mean scenario_C_std Let_def)

text \<open>The amended C7 on the group of Scenario C with one standard deviation: \<open>5000\<close> lies above the
  upper bound and is replaced by it, \<open>100\<close> lies within the bounds and is kept.\<close>

theorem outliers_trimmed_witness:
  "\<exists>res. outliers 1 scenario_C = Inr res \<and> length res = 5 \<and>
     snd (res ! 0) = Some 100 \<and>
     snd (res ! 4) = Some (5412 / 5 + 1 * sqrt (23980634 / 5))"
proof -
  let ?lower = "5412 / 5 - 1 * sqrt (23980634 / 5 :: real)"
  let ?upper = "5412 / 5 + 1 * sqrt (23980634 / 5 :: real)"
  have lt: "?lower < ?upper"
    using scenario_C_sqrt_lower by simp
  from outliers_trimmed [OF scenario_C_bounds lt]
  obtain res where ok: "outliers 1 scenario_C = Inr res"
    and len: "length res = length scenario_C"
    and val: "\<forall>i < length scenario_C.
        (scenario_C ! i = None \<longrightarrow> snd (res ! i) = None) \<and>
        (\<forall>v. scenario_C ! i = Some v \<longrightarrow>
           (?lower \<le> v \<and> v \<le> ?upper \<longrightarrow> snd (res ! i) = Some v) \<and>
           (v < ?lower \<longrightarrow> snd (res ! i) = Some ?lower) \<and>
           (?upper < v \<longrightarrow> snd (res ! i) = Some ?upper))"
    by blast
  have l5: "length res = 5"
    using len by (simp add: scenario_C_def)
  have v0: "snd (res ! 0) = Some 100"
    using val [rule_format, of 0] scenario_C_sqrt_lower by (simp add: scenario_C_def)
  have v4: "snd (res ! 4) = Some ?upper"
    using val [rule_format, of 4] scenario_C_sqrt_upper by (simp add: scenario_C_def)
  show ?thesis
    by (rule exI [of _ res]) (simp only: ok l5 v0 v4 simp_thms)
qed

text \<open>
  C2, as stated: a group of two or more equal observations has the bounds of the fallback,
  \<open>mean \<plusminus> k \<cdot> 0.1\<close>.  For two observations of \<open>350\<close> and \<open>k = 2\<close> that is
  \<open>[349.8, 350.2]\<close>; lines 187 to 190 give other bounds.
\<close>

theorem bounds_zero_variance_counterexample:
  "bounds 2 [Some 350, Some 350] \<noteq> Some (350 - 2 * (1 / 10), 350 + 2 * (1 / 10))"
  by (simp add: bounds_def series_mean_def series_std_def)

text \<open>There the standard deviation is \<open>0\<close>, not \<open>NaN\<close>: both bounds are the mean, and the
  cut of line 192 then raises on its repeated edge.\<close>

lemma bounds_zero_variance: "bounds 2 [Some 350, Some 350] = Some (350, 350)"
  by (simp add: bounds_def series_mean_def series_std_def)

lemma outliers_zero_variance:
  "outliers 2 [Some 350, Some 350] = Inl (ValueError ''Bin edges must be unique'')"
  by (simp add: outliers_def bounds_zero_variance pd_cut_outliers)

text \<open>
  C2, amended.  A group with exactly one observation \<open>v\<close> has the bounds
  \<open>[v - k \<cdot> 0.1, v + k \<cdot> 0.1]\<close>.  A group with two or more observations has a defined
  standard deviation, and its bounds are built from that deviation and not from \<open>0.1\<close>.
\<close>

theorem bounds_fallback:
  "(dropna grp = [v] \<longrightarrow> bounds SD grp = Some (v - SD * (1 / 10), v + SD * (1 / 10))) \<and>
   (2 \<le> length (dropna grp) \<longrightarrow>
      (\<exists>m sd. series_mean grp = Some m \<and> series_std grp = Some sd \<and>
               bounds SD grp = Some (m - SD * sd, m + SD * sd)))"
  by (auto simp: bounds_def series_mean_def series_std_def Let_def)

text \<open>The amended C2 on a group of a single observation (beside a missing one) and on a
  group of two.\<close>

theorem bounds_fallback_witness:
  "bounds 2 [None, Some 300] = Some (300 - 2 * (1 / 10), 300 + 2 * (1 / 10)) \<and>
   (\<exists>m sd. series_mean [Some 350, Some 350] = Some m \<and> series_std [Some 350, Some 350] = Some sd \<and>
            bounds 2 [Some 350, Some 350] = Some (m - 2 * sd, m + 2 * sd))"
proof -
  have one: "dropna [None, Some 300] = [300]" by simp
  have two: "2 \<le> length (dropna [Some 350, Some (350::real)])" by simp
  show ?thesis
    using bounds_fallback [of "[None, Some 300]" 300 2] bounds_fallback [of "[Some 350, Some 350]" 0 2]
      one two
    by blast
qed

lemma scenario_C_outliers:
  "outliers 2 scenario_C =
     Inr [(Some Ok, Some 100), (Some Ok, Some 102), (Some Ok, Some 104), (Some Ok, Some 106),
          (Some Ok, Some 5000)]"
proof -
  have lt: "5412 / 5 - 2 * sqrt (23980634 / 5) < 5412 / 5 + 2 * sqrt (23980634 / 5 :: real)"
    using scenario_C_sqrt_lower by simp
  show ?thesis
    using scenario_C_sqrt_lower
    by (simp add: outliers_ok [OF scenario_C_bounds lt] cut_value_def) (simp add: scenario_C_def)
qed

text \<open>
  C3, as stated: with two standard deviations the value \<open>5000\<close> of Scenario C is labelled
  \<open>Above\<close>.  The labels \<open>outliers\<close> returns are not those of the claim.
\<close>

theorem scenario_C_counterexample:
  "(case outliers 2 scenario_C of Inl e \<Rightarrow> None | Inr res \<Rightarrow> Some (map fst res))
     \<noteq> Some [Some Ok, Some Ok, Some Ok, Some Ok, Some Above]"
  by (simp add: scenario_C_outliers)

text \<open>
  C3, amended.  The sample standard deviation of Scenario C is about \<open>2190\<close> and the upper
  bound about \<open>5462\<close>, so with two standard deviations all five values, \<open>5000\<close> included,
  are labelled \<open>Ok\<close> and left unchanged.
\<close>

theorem scenario_C_all_ok:
  "outliers 2 scenario_C =
     Inr [(Some Ok, Some 100), (Some Ok, Some 102), (Some Ok, Some 104), (Some Ok, Some 106),
          (Some Ok, Some 5000)]"
  by (rule scenario_C_outliers)

subsection \<open>Missing-data detection\<close>

lemma series_mean_None_iff: "series_mean xs = None \<longleftrightarrow> (\<forall>x \<in> set xs. x = None)"
proof (induction xs)
  case Nil
  then show ?case by (simp add: series_mean_def)
next
  case (Cons a xs)
  then show ?case by (cases a) (auto simp: series_mean_def Let_def)
qed

lemma missing_groups_iff:
  "k \<in> set (missing_groups key rs) \<longleftrightarrow>
     k \<in> key ` set rs \<and>
     ((\<forall>r \<in> set rs. key r = k \<longrightarrow> RT r = None) \<or> (\<forall>r \<in> set rs. key r = k \<longrightarrow> RTremoveVal r = None))"
  by (auto simp: missing_groups_def any_mean_isnull_def series_mean_None_iff group_rows_def)

lemma identify_missing_data_rows:
  assumes "''RTremoveVal'' \<in> set (columns df)"
  shows "\<exists>printed. identify_missing_data cc df =
     Inr (df\<lparr>rows := (if drops_rows cc df
                       then filter (\<lambda>r. Condition r \<notin> set (missing_by_ppt_filler cc df))
                              (filter (\<lambda>r. PPT r \<notin> set (inelig_ppts cc df)) (rows df))
                       else rows df)\<rparr>, printed)"
  using assms by (auto simp: identify_missing_data_def drops_rows_def Let_def)

lemma drops_rows_iff:
  "drops_rows cc df \<longleftrightarrow> (\<exists>k \<in> set (missing_by_ppt df). key_condition k \<in> set cc)"
  by (auto simp: drops_rows_def critical_conditions_in_data_def filter_empty_conv)

lemma critical_in_data_set:
  "set (critical_conditions_in_data cc df) = set cc \<inter> key_condition ` set (missing_by_ppt df)"
  by (auto simp: critical_conditions_in_data_def)

lemma filler_set:
  "set (missing_by_ppt_filler cc df) = key_condition ` set (missing_by_ppt df) - set cc"
  by (auto simp: missing_by_ppt_filler_def critical_in_data_set)

lemma inelig_set:
  "set (inelig_ppts cc df) = fst ` {k \<in> set (missing_by_ppt df). key_condition k \<in> set cc}"
  by (auto simp: inelig_ppts_def missing_by_ppt_crit_def critical_in_data_set)

lemma after_extremes_filler:
  "after_extremes scenario_filler =
     \<lparr>columns = filtered_columns,
      rows = [filtered_row 0 ''P1'' ''Crit'' 1 300 (Some Ok) (Some 300),
              filtered_row 1 ''P1'' ''Fill'' 1 150 (Some Below) None]\<rparr>"
  by (simp add: after_extremes_def scenario_filler_def remove_extremes_def pd_cut_extremes
      cut_value_def removeExtremes_def mk_row_def add_column_def required_columns_def
      filtered_columns_def filtered_row_def)

lemma after_extremes_mixed:
  "after_extremes scenario_mixed =
     \<lparr>columns = filtered_columns,
      rows = [filtered_row 0 ''P1'' ''Crit'' 1 150 (Some Below) None,
              filtered_row 1 ''P1'' ''Fill'' 1 300 (Some Ok) (Some 300),
              filtered_row 2 ''P2'' ''Crit'' 1 300 (Some Ok) (Some 300),
              filtered_row 3 ''P2'' ''Fill'' 1 150 (Some Below) None,
              filtered_row 4 ''P2'' ''Other'' 1 400 (Some Ok) (Some 400)]\<rparr>"
  by (simp add: after_extremes_def scenario_mixed_def remove_extremes_def pd_cut_extremes
      cut_value_def removeExtremes_def mk_row_def add_column_def required_columns_def
      filtered_columns_def filtered_row_def)

lemma filtered_row_sel [simp]:
  "PPT (filtered_row i p c w t l v) = p"
  "Condition (filtered_row i p c w t l v) = c"
  "WordPos (filtered_row i p c w t l v) = w"
  "Item (filtered_row i p c w t l v) = ''I1''"
  "RT (filtered_row i p c w t l v) = Some t"
  "RTremoveVal (filtered_row i p c w t l v) = v"
  by (simp_all add: filtered_row_def mk_row_def)

lemma series_mean_Nil [simp]: "series_mean [] = None"
  by (simp add: series_mean_def)
lemma series_mean_None_Cons [simp]: "series_mean (None # xs) = series_mean xs"
  by (simp add: series_mean_def Let_def dropna_def List.map_filter_simps)
lemma series_mean_Some_Cons [simp]: "series_mean (Some v # xs) \<noteq> None"
  by (simp add: series_mean_def Let_def dropna_def List.map_filter_simps)

lemma missing_filler:
  "missing_by_ppt (after_extremes scenario_filler) = [(''P1'', ''Fill'', 1)]"
  by (simp add: after_extremes_filler missing_by_ppt_def missing_groups_def ppt_key_def
      group_rows_def any_mean_isnull_def)

lemma missing_mixed:
  "missing_by_ppt (after_extremes scenario_mixed) = [(''P1'', ''Crit'', 1), (''P2'', ''Fill'', 1)]"
  by (simp add: after_extremes_mixed missing_by_ppt_def missing_groups_def ppt_key_def
      group_rows_def any_mean_isnull_def)

text \<open>
  C1.  Let the frame carry the column \<open>RTremoveVal\<close>, let \<open>C\<close> be one of the critical
  conditions, and let participant \<open>P\<close> have at least one row in condition \<open>C\<close> and no
  defined \<open>RTremoveVal\<close> in any of them.  Then the stage returns a frame without any row
  of \<open>P\<close>, whatever the condition of the row.
\<close>

theorem critical_participant_excluded:
  assumes cols: "''RTremoveVal'' \<in> set (columns df)"
    and crit: "C \<in> set critical_conditions"
    and some: "\<exists>r \<in> set (rows df). PPT r = P \<and> Condition r = C"
    and none: "\<forall>r \<in> set (rows df). PPT r = P \<and> Condition r = C \<longrightarrow> RTremoveVal r = None"
  shows "\<exists>df' printed. identify_missing_data critical_conditions df = Inr (df', printed) \<and>
           (\<forall>r \<in> set (rows df'). PPT r \<noteq> P)"
proof -
  from some obtain r0 where r0: "r0 \<in> set (rows df)" "PPT r0 = P" "Condition r0 = C"
    by blast
  let ?k = "(P, C, WordPos r0)"
  have "?k \<in> ppt_key ` set (rows df)"
    using r0 by (force simp: ppt_key_def)
  moreover have "\<forall>r \<in> set (rows df). ppt_key r = ?k \<longrightarrow> RTremoveVal r = None"
    using none by (simp add: ppt_key_def)
  ultimately have miss: "?k \<in> set (missing_by_ppt df)"
    unfolding missing_by_ppt_def missing_groups_iff by blast
  have kc: "key_condition ?k = C" by (simp add: key_condition_def)
  have drops: "drops_rows critical_conditions df"
    unfolding drops_rows_iff
  proof (rule bexI [of _ ?k])
    show "key_condition ?k \<in> set critical_conditions" using kc crit by simp
    show "?k \<in> set (missing_by_ppt df)" by (rule miss)
  qed
  have "?k \<in> {k \<in> set (missing_by_ppt df). key_condition k \<in> set critical_conditions}"
    using miss kc crit by simp
  then have "fst ?k \<in> set (inelig_ppts critical_conditions df)"
    unfolding inelig_set by (rule imageI)
  then have inel: "P \<in> set (inelig_ppts critical_conditions df)" by simp
  from identify_missing_data_rows [OF cols, of critical_conditions]
  obtain printed where "identify_missing_data critical_conditions df =
     Inr (df\<lparr>rows := filter (\<lambda>r. Condition r \<notin> set (missing_by_ppt_filler critical_conditions df))
                (filter (\<lambda>r. PPT r \<notin> set (inelig_ppts critical_conditions df)) (rows df))\<rparr>, printed)"
    using drops by auto
  then show ?thesis using inel by auto
qed

text \<open>C1 on the second frame with the critical condition \<open>Crit\<close>: \<open>P1\<close> is gone.\<close>

theorem critical_participant_excluded_witness:
  "\<exists>df' printed. identify_missing_data [''Crit''] (after_extremes scenario_mixed) = Inr (df', printed) \<and>
      ''P1'' \<notin> set (map PPT (rows df'))"
proof -
  have cols: "''RTremoveVal'' \<in> set (columns (after_extremes scenario_mixed))"
    by (simp add: after_extremes_mixed filtered_columns_def)
  have crit: "''Crit'' \<in> set [''Crit'']" by simp
  have some: "\<exists>r \<in> set (rows (after_extremes scenario_mixed)). PPT r = ''P1'' \<and> Condition r = ''Crit''"
    by (simp add: after_extremes_mixed)
  have none: "\<forall>r \<in> set (rows (after_extremes scenario_mixed)).
      PPT r = ''P1'' \<and> Condition r = ''Crit'' \<longrightarrow> RTremoveVal r = None"
    by (simp add: after_extremes_mixed)
  from critical_participant_excluded [OF cols crit some none]
  obtain df' printed where ok: "identify_missing_data [''Crit''] (after_extremes scenario_mixed) = Inr (df', printed)"
    and gone: "\<forall>r \<in> set (rows df'). PPT r \<noteq> ''P1''"
    by blast
  from gone have "''P1'' \<notin> set (map PPT (rows df'))" by auto
  with ok show ?thesis by blast
qed

text \<open>
  C4, as stated: with critical conditions given and a group missing, a condition of the
  missing groups that is not critical is removed, also when no missing group is of a
  critical condition.  In the first frame only \<open>(P1, Fill, 1)\<close> is missing and \<open>Crit\<close>
  is the critical condition: the stage returns the rows of both conditions.
\<close>

theorem filler_only_counterexample:
  "(case identify_missing_data [''Crit''] (after_extremes scenario_filler) of
      Inl e \<Rightarrow> None
    | Inr (d, printed) \<Rightarrow> Some (map Condition (rows d), printed))
   = Some ([''Crit'', ''Fill''], [MissingByPpt [(''P1'', ''Fill'', 1)], NoCriticalAffected,
            MissingByItem [(''I1'', ''Fill'', 1)]])"
  by (simp add: identify_missing_data_def missing_filler critical_conditions_in_data_def
      key_condition_def Let_def)
    (simp add: after_extremes_filler filtered_columns_def missing_groups_def item_key_def
      group_rows_def any_mean_isnull_def)


text \<open>
  C4, amended.  When some missing group is of a critical condition, no row of the result
  has a condition that occurs among the missing groups without being critical.  When no
  missing group is of a critical condition, the stage returns the frame it was given.
\<close>

theorem filler_conditions_removed:
  assumes cols: "''RTremoveVal'' \<in> set (columns df)"
  shows "\<exists>df' printed. identify_missing_data critical_conditions df = Inr (df', printed) \<and>
     ((\<exists>k \<in> set (missing_by_ppt df). key_condition k \<in> set critical_conditions) \<longrightarrow>
        (\<forall>k \<in> set (missing_by_ppt df). key_condition k \<notin> set critical_conditions \<longrightarrow>
           (\<forall>r \<in> set (rows df'). Condition r \<noteq> key_condition k))) \<and>
     ((\<forall>k \<in> set (missing_by_ppt df). key_condition k \<notin> set critical_conditions) \<longrightarrow> df' = df)"
proof -
  from identify_missing_data_rows [OF cols, of critical_conditions]
  obtain printed where eq: "identify_missing_data critical_conditions df =
     Inr (df\<lparr>rows := (if drops_rows critical_conditions df
                       then filter (\<lambda>r. Condition r \<notin> set (missing_by_ppt_filler critical_conditions df))
                              (filter (\<lambda>r. PPT r \<notin> set (inelig_ppts critical_conditions df)) (rows df))
                       else rows df)\<rparr>, printed)"
    by blast
  show ?thesis
    unfolding eq by (auto simp: drops_rows_iff filler_set)
qed

text \<open>The amended C4 on both frames: \<open>Fill\<close> is removed from the second, where \<open>Crit\<close>
  is missing too, and the first is returned as it is.\<close>

theorem filler_conditions_removed_witness:
  "(\<exists>df' printed. identify_missing_data [''Crit''] (after_extremes scenario_mixed) = Inr (df', printed) \<and>
      ''Fill'' \<notin> set (map Condition (rows df'))) \<and>
   (\<exists>printed. identify_missing_data [''Crit''] (after_extremes scenario_filler)
      = Inr (after_extremes scenario_filler, printed))"
proof
  have cols: "''RTremoveVal'' \<in> set (columns (after_extremes scenario_mixed))"
    by (simp add: after_extremes_mixed filtered_columns_def)
  from filler_conditions_removed [OF cols, of "[''Crit'']"]
  obtain df' printed where ok: "identify_missing_data [''Crit''] (after_extremes scenario_mixed) = Inr (df', printed)"
    and rm: "(\<exists>k \<in> set (missing_by_ppt (after_extremes scenario_mixed)). key_condition k \<in> set [''Crit'']) \<longrightarrow>
        (\<forall>k \<in> set (missing_by_ppt (after_extremes scenario_mixed)). key_condition k \<notin> set [''Crit''] \<longrightarrow>
           (\<forall>r \<in> set (rows df'). Condition r \<noteq> key_condition k))"
    by blast
  have "\<forall>r \<in> set (rows df'). Condition r \<noteq> ''Fill''"
    using rm by (simp add: missing_mixed key_condition_def)
  then have "''Fill'' \<notin> set (map Condition (rows df'))" by auto
  with ok show "\<exists>df' printed. identify_missing_data [''Crit''] (after_extremes scenario_mixed) = Inr (df', printed) \<and>
      ''Fill'' \<notin> set (map Condition (rows df'))" by blast
next
  have cols: "''RTremoveVal'' \<in> set (columns (after_extremes scenario_filler))"
    by (simp add: after_extremes_filler filtered_columns_def)
  from filler_conditions_removed [OF cols, of "[''Crit'']"]
  obtain df' printed where ok: "identify_missing_data [''Crit''] (after_extremes scenario_filler) = Inr (df', printed)"
    and keep: "(\<forall>k \<in> set (missing_by_ppt (after_extremes scenario_filler)). key_condition k \<notin> set [''Crit'']) \<longrightarrow>
        df' = after_extremes scenario_filler"
    by blast
  have "df' = after_extremes scenario_filler"
    using keep by (simp add: missing_filler key_condition_def)
  with ok show "\<exists>printed. identify_missing_data [''Crit''] (after_extremes scenario_filler)
      = Inr (after_extremes scenario_filler, printed)" by blast
qed

text \<open>
  C9.  With an empty list of critical conditions the stage returns the frame it was
  given, and what it prints lists the missing groups of the participant view and of the
  item view whenever there are any.
\<close>

theorem no_critical_conditions_unchanged:
  assumes cols: "''RTremoveVal'' \<in> set (columns df)"
  shows "\<exists>printed. identify_missing_data [] df = Inr (df, printed) \<and>
     (missing_by_ppt df \<noteq> [] \<longrightarrow> MissingByPpt (missing_by_ppt df) \<in> set printed) \<and>
     (missing_groups item_key (rows df) \<noteq> [] \<longrightarrow>
        MissingByItem (missing_groups item_key (rows df)) \<in> set printed)"
  using cols by (simp add: identify_missing_data_def Let_def)


text \<open>C9 on the second frame, in which two groups are missing.\<close>

theorem no_critical_conditions_unchanged_witness:
  "\<exists>printed. identify_missing_data [] (after_extremes scenario_mixed) = Inr (after_extremes scenario_mixed, printed) \<and>
     MissingByPpt [(''P1'', ''Crit'', 1), (''P2'', ''Fill'', 1)] \<in> set printed"
proof -
  have cols: "''RTremoveVal'' \<in> set (columns (after_extremes scenario_mixed))"
    by (simp add: after_extremes_mixed filtered_columns_def)
  from no_critical_conditions_unchanged [OF cols]
  show ?thesis by (auto simp: missing_mixed)
qed


subsection \<open>Column validation\<close>

lemma missing_columns_absent:
  assumes "c \<in> set req" "c \<notin> set cols"
  shows "missing_columns cols req missing = Inl (NameError ''col'')"
  using assms by (induction req) auto

lemma missing_columns_present:
  assumes "set req \<subseteq> set cols"
  shows "missing_columns cols req missing = Inr missing"
  using assms by (induction req) auto

lemma get_RTdata_absent_column:
  assumes "objects s (data s) = Some d" "c \<in> set required_columns" "c \<notin> set (columns d)"
  shows "get_RTdata cc summ window identify SD_arg s = (Inl (NameError ''col''), s)"
  using assms by (simp add: get_RTdata_def missing_columns_absent)

lemma get_RTdata_unknown_condition:
  assumes "objects s (data s) = Some d" "set required_columns \<subseteq> set (columns d)"
    "c \<in> set cc" "c \<notin> Condition ` {r \<in> set (rows d). RT r \<noteq> None}"
  shows "\<exists>s'. get_RTdata cc summ window identify SD_arg s =
           (Inl (ValueError ''All conditions provided in critical_conditions must be in supplied self.data''), s')
         \<and> RTdata s' = RTdata s \<and> data s' = data s"
  using assms
  by (auto simp: get_RTdata_def missing_columns_present alloc_def deref_def select_numeric_def Let_def)


text \<open>
  C8.  The claim is that a table without one of the required columns makes
  \<open>get_RTdata\<close> raise \<open>ValueError\<close> naming the missing columns.  On the table without
  \<open>RT\<close> the call raises \<open>NameError\<close> for the unbound name \<open>col\<close> of line 228; the
  project is left as it was.
\<close>

theorem get_RTdata_missing_column:
  "get_RTdata [] True (Some [200, 5000]) True (Some 2) (project_of frame_no_RT)
     = (Inl (NameError ''col''), project_of frame_no_RT)"
  by (simp add: get_RTdata_def project_of_def frame_no_RT_def required_columns_def)

subsection \<open>The pipeline and the source table\<close>

lemma frame_kept_refl: "frame_kept n s s"
  by (simp add: frame_kept_def)

lemma frame_kept_trans: "frame_kept n s s1 \<Longrightarrow> frame_kept n s1 s2 \<Longrightarrow> frame_kept n s s2"
  by (simp add: frame_kept_def)

lemma frame_kept_alloc:
  assumes "alloc df s = (a, s')" "n \<le> fresh s"
  shows "frame_kept n s s' \<and> n \<le> a \<and> a < fresh s'"
  using assms by (auto simp: alloc_def frame_kept_def)

lemma frame_kept_store:
  assumes "n \<le> a"
  shows "frame_kept n s (store a df s)"
  using assms by (auto simp: store_def frame_kept_def)

lemma run_remove_extremes_frame:
  assumes "run_remove_extremes window df s = (r, s')" "n \<le> df"
  shows "frame_kept n s s' \<and> (\<forall>df'. r = Inr df' \<longrightarrow> df' = df)"
  using assms
  by (auto simp: run_remove_extremes_def frame_kept_refl frame_kept_store
      split: option.splits list.splits if_splits sum.splits)

lemma run_identify_missing_data_frame:
  assumes "run_identify_missing_data identify cc df s = (r, s')" "n \<le> df" "n \<le> fresh s"
  shows "frame_kept n s s' \<and> (\<forall>df'. r = Inr df' \<longrightarrow> n \<le> df')"
  using assms
  by (auto simp: run_identify_missing_data_def frame_kept_refl
      split: if_splits sum.splits prod.splits dest: frame_kept_alloc)

lemma run_filter_outliers_frame:
  assumes "run_filter_outliers SD_arg df s = (r, s')" "n \<le> df"
  shows "frame_kept n s s' \<and> (\<forall>df'. r = Inr df' \<longrightarrow> df' = df)"
  using assms
  by (auto simp: run_filter_outliers_def frame_kept_refl frame_kept_store
      split: option.splits if_splits sum.splits)


lemma get_RTdata_success:
  assumes "get_RTdata cc summ window identify SD_arg s = (Inr (), s')"
  obtains d df s1 df2 s2 df3 s3 df4 s4 a s5 where
    "objects s (data s) = Some d"
    "alloc (select_numeric d) s = (df, s1)"
    "run_remove_extremes window df s1 = (Inr df2, s2)"
    "run_identify_missing_data identify cc df2 s2 = (Inr df3, s3)"
    "run_filter_outliers SD_arg df3 s3 = (Inr df4, s4)"
    "alloc (reset_index (deref s4 df4)) s4 = (a, s5)"
    "s' = s5\<lparr>RTdata := Some a\<rparr>"
  using assms
  by (auto simp: get_RTdata_def Let_def split: option.splits sum.splits if_splits prod.splits)

text \<open>The two passes of the store-level step are those of \<open>filter_outliers\<close>.\<close>

lemma run_filter_outliers_pure:
  assumes "run_filter_outliers (Some SD) df s = (Inr df', s')"
  shows "0 \<le> SD \<and> df' = df \<and> filter_outliers (deref s df) SD = Inr (deref s' df')"
  using assms
  by (auto simp: run_filter_outliers_def filter_outliers_def deref_def store_def
      split: if_splits sum.splits)

text \<open>
  C10.  Let \<open>self.data\<close> refer to an object of the store.  When \<open>get_RTdata\<close> returns
  without raising, \<open>self.data\<close> is the same reference and the object it refers to is
  the one it was before the call; the result is a different object, held by
  \<open>self.RTdata\<close>.
\<close>

theorem get_RTdata_keeps_data:
  assumes wf: "data s < fresh s"
    and run: "get_RTdata cc summ window identify SD_arg s = (Inr (), s')"
  shows "data s' = data s \<and> objects s' (data s') = objects s (data s) \<and>
         (\<exists>a. RTdata s' = Some a \<and> a \<noteq> data s)"
proof -
  from run obtain d df s1 df2 s2 df3 s3 df4 s4 a s5 where
    a1: "alloc (select_numeric d) s = (df, s1)"
    and r2: "run_remove_extremes window df s1 = (Inr df2, s2)"
    and r3: "run_identify_missing_data identify cc df2 s2 = (Inr df3, s3)"
    and r4: "run_filter_outliers SD_arg df3 s3 = (Inr df4, s4)"
    and a5: "alloc (reset_index (deref s4 df4)) s4 = (a, s5)"
    and fin: "s' = s5\<lparr>RTdata := Some a\<rparr>"
    by (rule get_RTdata_success)
  let ?n = "fresh s"
  have k1: "frame_kept ?n s s1" and d1: "?n \<le> df"
    using frame_kept_alloc [OF a1, of ?n] by simp_all
  have k2: "frame_kept ?n s1 s2" and d2: "df2 = df"
    using run_remove_extremes_frame [OF r2 d1] by simp_all
  have f2: "?n \<le> fresh s2"
    using k1 k2 by (simp add: frame_kept_def)
  have k3: "frame_kept ?n s2 s3" and d3: "?n \<le> df3"
    using run_identify_missing_data_frame [OF r3 _ f2] d1 d2 by simp_all
  have k4: "frame_kept ?n s3 s4"
    using run_filter_outliers_frame [OF r4 d3] by simp
  have k04: "frame_kept ?n s s4"
    using k1 k2 k3 k4 by (blast intro: frame_kept_trans)
  have f4: "?n \<le> fresh s4"
    using k04 by (simp add: frame_kept_def)
  have k5: "frame_kept ?n s4 s5" and d5: "?n \<le> a"
    using frame_kept_alloc [OF a5 f4] by simp_all
  have k05: "frame_kept ?n s s5"
    using k04 k5 by (rule frame_kept_trans)
  show ?thesis
    using k05 d5 wf by (simp add: frame_kept_def fin)
qed

lemma frame_two_after_extremes:
  "remove_extremes (select_numeric frame_two) 200 5000 = Inr frame_two_filtered"
  by (simp add: select_numeric_def frame_two_def remove_extremes_def pd_cut_extremes
      cut_value_def removeExtremes_def mk_row_def add_column_def required_columns_def
      filtered_columns_def filtered_row_def frame_two_filtered_def)

lemma frame_two_identify:
  "identify_missing_data [''A''] frame_two_filtered = Inr (frame_two_filtered, [NoMissingByPpt])"
  by (simp add: identify_missing_data_def missing_by_ppt_def missing_groups_def ppt_key_def item_key_def
      group_rows_def any_mean_isnull_def filtered_columns_def required_columns_def frame_two_filtered_def)

lemma frame_two_drops: "\<not> drops_rows [''A''] frame_two_filtered"
  by (simp add: drops_rows_def missing_by_ppt_def missing_groups_def ppt_key_def 
      group_rows_def any_mean_isnull_def frame_two_filtered_def)

lemma outliers_300: "outliers 2 [Some 300] = Inr [(Some Ok, Some 300)]"
  by (simp add: outliers_def bounds_def series_mean_def series_std_def pd_cut_outliers
      mask_def series_lt_def series_gt_def cut_value_def)

lemma outliers_400: "outliers 2 [Some 400] = Inr [(Some Ok, Some 400)]"
  by (simp add: outliers_def bounds_def series_mean_def series_std_def pd_cut_outliers
      mask_def series_lt_def series_gt_def cut_value_def)

lemma frame_two_by_ppt:
  "\<exists>d. filter_by_ppt frame_two_filtered 2 = Inr d \<and>
       columns d = filtered_columns @ [''RTfiltered_by_ppt_labels'', ''RTfiltered_by_ppt_values''] \<and>
       map (\<lambda>r. (Item r, Condition r, WordPos r, RTremoveVal r)) (rows d) = 
          [(''I1'', ''A'', 1, Some 300), (''I1'', ''B'', 1, Some 400)]"
  by (simp add: filter_by_ppt_def filtered_columns_def required_columns_def ppt_key_def group_rows_def
      outliers_300 outliers_400 add_column_def aligned_def position_in_group_def frame_two_filtered_def)

lemma frame_two_by_item:
  assumes "columns d = filtered_columns @ [''RTfiltered_by_ppt_labels'', ''RTfiltered_by_ppt_values'']"
    "map (\<lambda>r. (Item r, Condition r, WordPos r, RTremoveVal r)) (rows d) = 
          [(''I1'', ''A'', 1, Some 300), (''I1'', ''B'', 1, Some 400)]"
  shows "\<exists>d'. filter_by_item d 2 = Inr d'"
proof -
  from assms(2) obtain r0 r1 where rs: "rows d = [r0, r1]"
    and r0: "Item r0 = ''I1''" "Condition r0 = ''A''" "WordPos r0 = 1" "RTremoveVal r0 = Some 300"
    and r1: "Item r1 = ''I1''" "Condition r1 = ''B''" "WordPos r1 = 1" "RTremoveVal r1 = Some 400"
    by (auto simp: map_eq_Cons_conv)
  show ?thesis
    by (simp add: filter_by_item_def assms(1) filtered_columns_def rs r0 r1 item_key_def group_rows_def
        outliers_300 outliers_400)
qed

lemma deref_store [simp]: "deref (store a d s) a = d"
  by (simp add: deref_def store_def)

lemma st_obj: "objects (project_of frame_two) (data (project_of frame_two)) = Some frame_two"
  by (simp add: project_of_def)

lemma st_cols: "missing_columns (columns frame_two) required_columns [] = Inr []"
  by (rule missing_columns_present) (auto simp: frame_two_def)

lemma st_a1: "alloc (select_numeric frame_two) (project_of frame_two) = (Suc 0, s1_two)"
  by (simp add: alloc_def project_of_def s1_two_def)

lemma st_dr1: "deref s1_two (Suc 0) = select_numeric frame_two"
  by (simp add: deref_def s1_two_def)

lemma st_conds: "\<not> (\<exists>condition \<in> set [''A'']. condition \<notin> set (map Condition (rows (deref s1_two (Suc 0)))))"
  by (simp add: st_dr1 select_numeric_def frame_two_def mk_row_def)

lemma st_nonempty: "rows (deref s1_two (Suc 0)) \<noteq> []"
  by (simp add: st_dr1 select_numeric_def frame_two_def mk_row_def)

lemma st_r2:
  "run_remove_extremes (Some [200, 5000]) (Suc 0) s1_two = (Inr (Suc 0), store (Suc 0) frame_two_filtered s1_two)"
  by (simp add: run_remove_extremes_def st_dr1 frame_two_after_extremes)

lemma st_r3:
  "run_identify_missing_data True [''A''] (Suc 0) (store (Suc 0) frame_two_filtered s1_two)
     = (Inr (Suc 0), store (Suc 0) frame_two_filtered s1_two)"
  by (simp add: run_identify_missing_data_def frame_two_identify frame_two_drops)

lemma st_r4:
  "\<exists>d. run_filter_outliers (Some 2) (Suc 0) (store (Suc 0) frame_two_filtered s1_two)
     = (Inr (Suc 0), store (Suc 0) d (store (Suc 0) frame_two_filtered s1_two))"
proof -
  from frame_two_by_ppt obtain d where dd: "filter_by_ppt frame_two_filtered 2 = Inr d \<and>
       columns d = filtered_columns @ [''RTfiltered_by_ppt_labels'', ''RTfiltered_by_ppt_values''] \<and>
       map (\<lambda>r. (Item r, Condition r, WordPos r, RTremoveVal r)) (rows d) = 
          [(''I1'', ''A'', 1, Some 300), (''I1'', ''B'', 1, Some 400)]" ..
  note d = dd [THEN conjunct1]
  note c = dd [THEN conjunct2, THEN conjunct1]
  note m = dd [THEN conjunct2, THEN conjunct2]
  from frame_two_by_item [OF c m] obtain d' where d': "filter_by_item d 2 = Inr d'" ..
  show ?thesis
    by (rule exI [of _ d']) (simp add: run_filter_outliers_def d d')
qed


lemma frame_two_runs:
  "fst (get_RTdata [''A''] True (Some [200, 5000]) True (Some 2) (project_of frame_two)) = Inr ()"
proof -
  from st_r4 obtain d where
    r4: "run_filter_outliers (Some 2) (Suc 0) (store (Suc 0) frame_two_filtered s1_two)
     = (Inr (Suc 0), store (Suc 0) d (store (Suc 0) frame_two_filtered s1_two))" ..
  show ?thesis
    unfolding get_RTdata_def
    by (simp only: st_obj st_cols st_a1 st_conds st_nonempty st_r2 st_r3 r4 option.case sum.case
        prod.case Let_def if_False simp_thms split_beta fst_conv snd_conv)
qed

text \<open>C10 on the second table with every stage switched on: the call returns and the
  object behind \<open>self.data\<close> is still the table, its extra column and its non-numeric
  row included.\<close>

theorem get_RTdata_keeps_data_witness:
  "data (project_of frame_two) < fresh (project_of frame_two) \<and>
   fst (get_RTdata [''A''] True (Some [200, 5000]) True (Some 2) (project_of frame_two)) = Inr () \<and>
   objects (snd (get_RTdata [''A''] True (Some [200, 5000]) True (Some 2) (project_of frame_two))) 0
     = Some frame_two"
proof -
  let ?run = "get_RTdata [''A''] True (Some [200, 5000]) True (Some 2) (project_of frame_two)"
  have wf: "data (project_of frame_two) < fresh (project_of frame_two)"
    by (simp add: project_of_def)
  have run: "?run = (Inr (), snd ?run)"
    using frame_two_runs by (metis prod.collapse)
  note keep = get_RTdata_keeps_data [OF wf run]
  have "objects (snd ?run) 0 = Some frame_two"
    using keep [THEN conjunct1] keep [THEN conjunct2, THEN conjunct1]
    by (simp add: project_of_def)
  with wf frame_two_runs show ?thesis by simp
qed

end
